theory Spec2Isabelle
  imports Complex_Main
begin

section \<open>JavaScript values\<close>

text \<open>
  The client is written in JavaScript (React). Every value the components receive comes
  from a JSON document (the body of the analysis response, or the copy of it kept in
  \<open>localStorage\<close>) or is \<open>undefined\<close>/\<open>null\<close>. A JavaScript number is an IEEE double:
  \<open>NaN\<close>, the two infinities, or a finite double. A finite double is a real number, and
  the only arithmetic the sources do on numbers is comparison with a literal, which is
  exact; so finite numbers are modelled as reals (\<open>-0\<close> and \<open>0\<close> are the one real \<open>0\<close>,
  and JavaScript does not tell them apart in any operation used here).
\<close>

datatype jsnum = NaN | NegInf | Fin real | PosInf

datatype jsval =
    Undefined
  | Null
  | Bool bool
  | Num jsnum
  | Str string
  | Arr "jsval list"
  | Obj "(string \<times> jsval) list"

datatype error = TypeError | SyntaxError

text \<open>
  Four functions of the JavaScript runtime convert between text and values:
  \<open>Number.prototype.toString\<close>, the \<open>StringToNumber\<close> conversion, \<open>JSON.parse\<close> and
  \<open>JSON.stringify\<close>. They are not code of this repository; the model takes them as a
  parameter, so every theorem below holds for whatever the runtime computes.
  \<open>JSON.parse\<close> throws a \<open>SyntaxError\<close> on malformed text; \<open>JSON.stringify\<close> returns
  \<open>undefined\<close> (here \<open>None\<close>) instead of a string for the argument \<open>undefined\<close>.
\<close>

record runtime =
  number_to_string :: "jsnum \<Rightarrow> string"
  string_to_number :: "string \<Rightarrow> jsnum"
  JSON_parse :: "string \<Rightarrow> error + jsval"
  JSON_stringify :: "jsval \<Rightarrow> string option"

definition nullish :: "jsval \<Rightarrow> bool" where
  "nullish v = (v = Undefined \<or> v = Null)"

text \<open>\<open>ToBoolean\<close>: what \<open>!v\<close>, \<open>v && e\<close>, \<open>v || e\<close> and \<open>if (v)\<close> test.\<close>

fun truthy :: "jsval \<Rightarrow> bool" where
  "truthy Undefined = False"
| "truthy Null = False"
| "truthy (Bool b) = b"
| "truthy (Num n) = (n \<noteq> NaN \<and> n \<noteq> Fin 0)"
| "truthy (Str s) = (s \<noteq> [])"
| "truthy (Arr xs) = True"
| "truthy (Obj kvs) = True"

definition js_or :: "jsval \<Rightarrow> jsval \<Rightarrow> jsval" where
  \<comment> \<open>\<open>a || b\<close>\<close>
  "js_or a b = (if truthy a then a else b)"

definition nullish_coalesce :: "jsval \<Rightarrow> jsval \<Rightarrow> jsval" where
  \<comment> \<open>\<open>a ?? b\<close>\<close>
  "nullish_coalesce a b = (if nullish a then b else a)"

text \<open>
  Reading a data property \<open>k\<close> of a value that is neither \<open>undefined\<close> nor \<open>null\<close>. An
  object has the properties of its JSON text (an association list; the first entry of a
  key is its value); an array and a string have \<open>length\<close> and their elements under the
  canonical decimal keys; a number and a boolean have no data property. (Inherited properties such as \<open>map\<close> and \<open>split\<close> are functions, not
  values of type \<open>jsval\<close>; the components below model a call of them directly.)
\<close>

fun digit_val :: "char \<Rightarrow> nat option" where
  "digit_val c =
     (let n = (of_char c :: nat) in if 48 \<le> n \<and> n \<le> 57 then Some (n - 48) else None)"

fun digits_val :: "nat \<Rightarrow> string \<Rightarrow> nat option" where
  "digits_val acc [] = Some acc"
| "digits_val acc (c # cs) =
     (case digit_val c of None \<Rightarrow> None | Some d \<Rightarrow> digits_val (10 * acc + d) cs)"

definition index_key :: "string \<Rightarrow> nat option" where
  \<comment> \<open>a canonical array index: decimal digits with no leading zero\<close>
  "index_key k =
     (if k = [] \<or> (hd k = CHR ''0'' \<and> tl k \<noteq> []) then None else digits_val 0 k)"

fun get_prop :: "jsval \<Rightarrow> string \<Rightarrow> jsval" where
  "get_prop (Obj kvs) k = (case map_of kvs k of None \<Rightarrow> Undefined | Some v \<Rightarrow> v)"
| "get_prop (Arr xs) k =
     (if k = ''length'' then Num (Fin (real (length xs)))
      else case index_key k of
        None \<Rightarrow> Undefined
      | Some i \<Rightarrow> if i < length xs then xs ! i else Undefined)"
| "get_prop (Str s) k =
     (if k = ''length'' then Num (Fin (real (length s)))
      else case index_key k of
        None \<Rightarrow> Undefined
      | Some i \<Rightarrow> if i < length s then Str [s ! i] else Undefined)"
| "get_prop v k = Undefined"

definition dot :: "jsval \<Rightarrow> string \<Rightarrow> error + jsval" where
  \<comment> \<open>\<open>v.k\<close>: a \<open>TypeError\<close> on \<open>undefined\<close> and \<open>null\<close>\<close>
  "dot v k = (if nullish v then Inl TypeError else Inr (get_prop v k))"

definition opt_dot :: "jsval \<Rightarrow> string \<Rightarrow> jsval" where
  \<comment> \<open>\<open>v?.k\<close>\<close>
  "opt_dot v k = (if nullish v then Undefined else get_prop v k)"

text \<open>
  \<open>ToString\<close> and \<open>ToNumber\<close>. An array converts to the comma-joined conversions of
  its elements (\<open>undefined\<close> and \<open>null\<close> elements as the empty string), a plain object to
  the text \<open>[object Object]\<close>; an array or object converts to a number through its string.
\<close>

fun join_comma :: "string list \<Rightarrow> string" where
  "join_comma [] = []"
| "join_comma [s] = s"
| "join_comma (s # t # ts) = s @ '','' @ join_comma (t # ts)"

fun to_string :: "runtime \<Rightarrow> jsval \<Rightarrow> string" where
  "to_string rt Undefined = ''undefined''"
| "to_string rt Null = ''null''"
| "to_string rt (Bool b) = (if b then ''true'' else ''false'')"
| "to_string rt (Num n) = number_to_string rt n"
| "to_string rt (Str s) = s"
| "to_string rt (Arr xs) =
     join_comma (map (\<lambda>x. if x = Undefined \<or> x = Null then [] else to_string rt x) xs)"
| "to_string rt (Obj kvs) = ''[object Object]''"

fun to_number :: "runtime \<Rightarrow> jsval \<Rightarrow> jsnum" where
  "to_number rt Undefined = NaN"
| "to_number rt Null = Fin 0"
| "to_number rt (Bool b) = Fin (if b then 1 else 0)"
| "to_number rt (Num n) = n"
| "to_number rt (Str s) = string_to_number rt s"
| "to_number rt v = string_to_number rt (to_string rt v)"

text \<open>
  The comparisons \<open>v >= c\<close> and \<open>v > c\<close> of a value with a finite numeric literal \<open>c\<close>:
  the value is converted to a number, and a comparison with \<open>NaN\<close> is false.
\<close>

fun num_ge :: "jsnum \<Rightarrow> real \<Rightarrow> bool" where
  "num_ge NaN c = False"
| "num_ge NegInf c = False"
| "num_ge (Fin x) c = (x \<ge> c)"
| "num_ge PosInf c = True"


definition js_ge :: "runtime \<Rightarrow> jsval \<Rightarrow> real \<Rightarrow> bool" where
  "js_ge rt v c = num_ge (to_number rt v) c"



section \<open>Score gauges and cards\<close>

text \<open>
  A component is a function from its props to an element tree. The model keeps what the
  function computes for that tree: the colours, and the values of the expressions it
  interpolates; static markup and chart geometry are left out. What React does with the
  tree afterwards is outside the model.
\<close>

record gauge_view =
  bar_fill :: string
  bar_value :: jsval
  heading_color :: string
  heading :: jsval
  caption :: jsval

definition RiskGauge :: "runtime \<Rightarrow> jsval \<Rightarrow> jsval \<Rightarrow> gauge_view" where
  "RiskGauge rt score category =
     \<lparr> bar_fill =
         (if js_ge rt score 750 then ''#28a745''
          else if js_ge rt score 600 then ''#fd7e14''
          else ''#dc3545''),
       bar_value = score,
       heading_color =
         (if js_ge rt score 750 then ''#28a745''
          else if js_ge rt score 600 then ''#fd7e14''
          else ''#dc3545''),
       heading = score,
       caption = category \<rparr>"



text \<open>\<open>ESGCard\<close>: \<open>getColor\<close> is a closure over the destructured \<open>score\<close>.\<close>

definition getColor :: "runtime \<Rightarrow> jsval \<Rightarrow> string" where
  "getColor rt score =
     (if js_ge rt score 80 then ''#22c55e''
      else if js_ge rt score 65 then ''#3b82f6''
      else if js_ge rt score 50 then ''#f59e0b''
      else ''#ef4444'')"

record breakdown_view =
  environmental :: jsval
  social :: jsval
  governance :: jsval

record esg_view =
  score_color :: string
  score_text :: jsval
  category_text :: jsval
  breakdown_part :: "jsval + breakdown_view"

text \<open>
  A component that returns \<open>null\<close> renders nothing: \<open>None\<close>. After the guard \<open>esg\<close> is
  truthy, hence neither \<open>undefined\<close> nor \<open>null\<close>, and the destructuring cannot throw.
  \<open>breakdown && (...)\<close> is the element when \<open>breakdown\<close> is truthy and the falsy value
  itself otherwise.
\<close>

definition ESGCard :: "runtime \<Rightarrow> jsval \<Rightarrow> esg_view option" where
  "ESGCard rt esg =
     (if \<not> truthy esg then None
      else
        let score = get_prop esg ''score'';
            category = get_prop esg ''category'';
            breakdown = get_prop esg ''breakdown''
        in Some \<lparr> score_color = getColor rt score,
                  score_text = score,
                  category_text = category,
                  breakdown_part =
                    (if truthy breakdown
                     then Inr \<lparr> environmental = get_prop breakdown ''environmental'',
                                social = get_prop breakdown ''social'',
                                governance = get_prop breakdown ''governance'' \<rparr>
                     else Inl breakdown) \<rparr>)"

text \<open>
  \<open>AISummary\<close> splits the summary at line feeds, one paragraph per piece. Only a string
  has a \<open>split\<close> method: any other truthy value makes the call throw.
\<close>

fun split_on :: "char \<Rightarrow> string \<Rightarrow> string list" where
  "split_on c [] = [[]]"
| "split_on c (x # xs) =
     (if x = c then [] # split_on c xs
      else case split_on c xs of
        [] \<Rightarrow> [[x]]
      | l # ls \<Rightarrow> (x # l) # ls)"

definition AISummary :: "jsval \<Rightarrow> error + string list option" where
  "AISummary summary =
     (if \<not> truthy summary then Inr None
      else case summary of
        Str s \<Rightarrow> Inr (Some (split_on (CHR 0x0A) s))
      | _ \<Rightarrow> Inl TypeError)"

section \<open>Alert panels\<close>

record alert_view =
  border_left :: string
  alert_title :: jsval
  badge_background :: string
  badge_text :: jsval
  alert_body :: jsval

datatype panel_view =
    AllClear string string string  \<comment> \<open>heading, text colour, message\<close>
  | Alerts string "alert_view list"  \<comment> \<open>heading, one entry per element\<close>

text \<open>The check mark that opens both confirmation messages is U+2705, here in UTF-8.\<close>

definition check_mark :: string where
  "check_mark = [CHR 0xE2, CHR 0x9C, CHR 0x85]"

fun map_err :: "('a \<Rightarrow> error + 'b) \<Rightarrow> 'a list \<Rightarrow> error + 'b list" where
  "map_err f [] = Inr []"
| "map_err f (x # xs) =
     (case f x of
        Inl e \<Rightarrow> Inl e
      | Inr y \<Rightarrow> (case map_err f xs of Inl e \<Rightarrow> Inl e | Inr ys \<Rightarrow> Inr (y # ys)))"

text \<open>\<open>WarningPanel\<close> (with its own \<open>getSeverityColor\<close>).\<close>

definition WarningPanel_getSeverityColor :: "jsval \<Rightarrow> string" where
  "WarningPanel_getSeverityColor severity =
     (if severity = Str ''Critical'' then ''#ef4444''
      else if severity = Str ''High'' then ''#dc2626''
      else if severity = Str ''Medium'' then ''#f59e0b''
      else ''#3b82f6'')"

definition warning_alert :: "jsval \<Rightarrow> error + alert_view" where
  \<comment> \<open>the callback of \<open>warnings.map\<close>; \<open>warn.severity\<close> throws on a null element\<close>
  "warning_alert warn =
     (if nullish warn then Inl TypeError
      else Inr \<lparr> border_left =
                   ''6px solid '' @ WarningPanel_getSeverityColor (get_prop warn ''severity''),
                 alert_title = get_prop warn ''type'',
                 badge_background = WarningPanel_getSeverityColor (get_prop warn ''severity''),
                 badge_text = get_prop warn ''severity'',
                 alert_body = js_or (get_prop warn ''message'') (get_prop warn ''description'') \<rparr>)"

definition WarningPanel :: "jsval \<Rightarrow> error + panel_view" where
  "WarningPanel warnings =
     (if \<not> truthy warnings \<or> get_prop warnings ''length'' = Num (Fin 0)
      then Inr (AllClear ''Early Warning System'' ''#22c55e''
                  (check_mark @ '' No active financial warnings''))
      else case warnings of
        Arr xs \<Rightarrow>
          (case map_err warning_alert xs of
             Inl e \<Rightarrow> Inl e
           | Inr entries \<Rightarrow> Inr (Alerts ''Early Warning Alerts'' entries))
      | _ \<Rightarrow> Inl TypeError)"

text \<open>\<open>FraudPanel\<close> (with its own \<open>getSeverityColor\<close>).\<close>

definition FraudPanel_getSeverityColor :: "jsval \<Rightarrow> string" where
  "FraudPanel_getSeverityColor severity =
     (if severity = Str ''Critical'' then ''#ef4444''
      else if severity = Str ''High'' then ''#dc2626''
      else if severity = Str ''Medium'' then ''#f59e0b''
      else ''#3b82f6'')"

definition fraud_alert :: "jsval \<Rightarrow> error + alert_view" where
  \<comment> \<open>the callback of \<open>fraud.map\<close>; \<open>flag.severity\<close> throws on a null element\<close>
  "fraud_alert flag =
     (if nullish flag then Inl TypeError
      else Inr \<lparr> border_left =
                   ''6px solid '' @ FraudPanel_getSeverityColor (get_prop flag ''severity''),
                 alert_title = get_prop flag ''type'',
                 badge_background = FraudPanel_getSeverityColor (get_prop flag ''severity''),
                 badge_text = get_prop flag ''severity'',
                 alert_body = js_or (get_prop flag ''message'') (get_prop flag ''description'') \<rparr>)"

definition FraudPanel :: "jsval \<Rightarrow> error + panel_view" where
  "FraudPanel fraud =
     (if \<not> truthy fraud \<or> get_prop fraud ''length'' = Num (Fin 0)
      then Inr (AllClear ''Fraud Detection'' ''#22c55e''
                  (check_mark @ '' No fraud risks detected''))
      else case fraud of
        Arr xs \<Rightarrow>
          (case map_err fraud_alert xs of
             Inl e \<Rightarrow> Inl e
           | Inr entries \<Rightarrow> Inr (Alerts ''Fraud & Anomaly Alerts'' entries))
      | _ \<Rightarrow> Inl TypeError)"

section \<open>Result pages\<close>

text \<open>
  \<open>Card\<close> (in \<open>ResultsPage\<close>) and \<open>MetricCard\<close> (in \<open>Dashboard\<close>) show a title, a value
  and, when \<open>subtitle\<close> is truthy, a paragraph with it; \<open>subtitle && ...\<close> is the falsy
  value itself otherwise. A call without \<open>subtitle\<close> passes \<open>undefined\<close>.
\<close>

record card_view =
  card_title :: string
  card_value :: jsval
  card_subtitle :: "jsval + jsval"

definition Card :: "string \<Rightarrow> jsval \<Rightarrow> jsval \<Rightarrow> card_view" where
  "Card title v subtitle =
     \<lparr> card_title = title, card_value = v,
       card_subtitle = (if truthy subtitle then Inr subtitle else Inl subtitle) \<rparr>"


record results_view =
  score_grid :: "card_view list"
  finance_grid :: "card_view list"
  recommended_product :: jsval
  recommendation_reason :: jsval
  forecast_revenue :: jsval
  forecast_expenses :: jsval
  summary_text :: jsval

datatype results_page = Loading | Overview results_view

text \<open>
  \<open>ResultsPage\<close>, the render function for a given \<open>analysis\<close> state. \<open>path2 v a b\<close> is
  \<open>v?.a?.b\<close>.
\<close>

definition path2 :: "jsval \<Rightarrow> string \<Rightarrow> string \<Rightarrow> jsval" where
  "path2 v a b = opt_dot (opt_dot v a) b"

definition ResultsPage_render :: "runtime \<Rightarrow> jsval \<Rightarrow> results_page" where
  "ResultsPage_render rt analysis =
     (if \<not> truthy analysis then Loading
      else Overview
        \<lparr> score_grid =
            [ Card ''Risk Score''
                (nullish_coalesce (path2 analysis ''risk'' ''score'') (Num (Fin 0)))
                (nullish_coalesce (path2 analysis ''risk'' ''category'') (Str [])),
              Card ''Investor Readiness''
                (nullish_coalesce (path2 analysis ''investor'' ''score'') (Num (Fin 0)))
                (nullish_coalesce (path2 analysis ''investor'' ''category'') (Str [])),
              Card ''ESG Score''
                (nullish_coalesce (path2 analysis ''esg'' ''score'') (Num (Fin 0)))
                (nullish_coalesce (path2 analysis ''esg'' ''category'') (Str [])),
              Card ''Survival Score''
                (nullish_coalesce (opt_dot analysis ''survival_score'') (Num (Fin 0)))
                Undefined ],
          finance_grid =
            [ Card ''Net Cash Flow''
                (nullish_coalesce (path2 analysis ''cashflow'' ''net_cash_flow'') (Num (Fin 0)))
                (nullish_coalesce (path2 analysis ''cashflow'' ''liquidity_status'') (Str [])),
              Card ''Working Capital''
                (nullish_coalesce (path2 analysis ''working_capital'' ''working_capital'')
                   (Num (Fin 0)))
                (nullish_coalesce (path2 analysis ''working_capital'' ''status'') (Str [])),
              Card ''Compliance Score''
                (nullish_coalesce (path2 analysis ''compliance'' ''compliance_score'')
                   (Num (Fin 0)))
                Undefined,
              Card ''Industry Percentile''
                (Str (to_string rt
                        (nullish_coalesce (path2 analysis ''benchmarking'' ''percentile_rank'')
                           (Num (Fin 0))) @ ''%''))
                Undefined ],
          recommended_product =
            nullish_coalesce
              (path2 analysis ''product_recommendations'' ''recommended_product'') (Str ''N/A''),
          recommendation_reason =
            nullish_coalesce (path2 analysis ''product_recommendations'' ''reason'') (Str []),
          forecast_revenue =
            nullish_coalesce (path2 analysis ''forecast'' ''next_revenue_forecast'') (Num (Fin 0)),
          forecast_expenses =
            nullish_coalesce (path2 analysis ''forecast'' ''next_expense_forecast'') (Num (Fin 0)),
          summary_text = nullish_coalesce (opt_dot analysis ''ai_summary'') (Str []) \<rparr>)"








section \<open>The upload workflow\<close>

text \<open>
  The state the workflow reads and writes: the two state variables of one mounted
  \<open>UploadPage\<close>, the browser's \<open>localStorage\<close>, the current route, the arguments
  \<open>alert\<close> was called with, the HTTP requests issued (both oldest first), and the
  invocations of the asynchronous \<open>handleUpload\<close> that are suspended at an \<open>await\<close>.
  Nothing in the code ties the loading flag to the operations in flight: the flag is
  set when an invocation starts and cleared when any invocation ends, so the model
  keeps the two apart and assumes no relation between them.
\<close>

datatype request = Upload nat jsval | Analyze nat

datatype awaiting = AwaitUpload | AwaitAnalysis

record app =
  file' :: jsval
  loading :: bool
  storage :: "string \<rightharpoonup> string"
  location :: string
  alerts :: "jsval list"
  requests :: "request list"
  in_flight :: "awaiting list"

definition initial :: app where
  "initial = \<lparr> file' = Null, loading = False, storage = Map.empty, location = ''/'',
               alerts = [], requests = [], in_flight = [] \<rparr>"

definition businessId :: nat where
  "businessId = 1"

definition setFile :: "jsval \<Rightarrow> app \<Rightarrow> app" where
  \<comment> \<open>the file input's \<open>onChange\<close>: \<open>e.target.files[0]\<close>, \<open>undefined\<close> when none was chosen\<close>
  "setFile f st = st\<lparr>file' := f\<rparr>"

text \<open>
  \<open>handleUpload\<close> up to its first \<open>await\<close>: the guard, \<open>setLoading(true)\<close> and the call
  of \<open>uploadFile\<close>, which posts the file.
\<close>

definition handleUpload :: "app \<Rightarrow> app" where
  "handleUpload st =
     (if \<not> truthy (file' st)
      then st\<lparr>alerts := alerts st @ [Str ''Please select a file.'']\<rparr>
      else st\<lparr>loading := True,
              requests := requests st @ [Upload businessId (file' st)],
              in_flight := in_flight st @ [AwaitUpload]\<rparr>)"

text \<open>
  A promise of \<open>uploadFile\<close> or \<open>runAnalysis\<close> settles in one of two ways: axios resolves
  it with a response object, of which the workflow reads only \<open>data\<close>, the parsed body
  (\<open>Resolved\<close> carries that body); or it is rejected with the value thrown.
\<close>

datatype outcome = Resolved jsval | Rejected jsval

definition error_detail :: "jsval \<Rightarrow> jsval" where
  \<comment> \<open>the \<open>detail\<close> of the \<open>catch\<close> block\<close>
  "error_detail err =
     js_or (opt_dot (path2 err ''response'' ''data'') ''detail'')
       (js_or (opt_dot (path2 err ''response'' ''data'') ''message'')
          (js_or (opt_dot err ''message'') (Str ''Upload or analysis failed.'')))"

definition drop_nth :: "nat \<Rightarrow> 'a list \<Rightarrow> 'a list" where
  "drop_nth i xs = take i xs @ drop (Suc i) xs"

definition failed :: "nat \<Rightarrow> jsval \<Rightarrow> app \<Rightarrow> app" where
  \<comment> \<open>the \<open>catch\<close> block, then \<open>setLoading(false)\<close>; invocation \<open>i\<close> is over\<close>
  "failed i err st =
     st\<lparr>alerts := alerts st @ [error_detail err],
        loading := False,
        in_flight := drop_nth i (in_flight st)\<rparr>"

definition stored_text :: "runtime \<Rightarrow> jsval \<Rightarrow> string" where
  \<comment> \<open>what \<open>setItem\<close> stores for \<open>JSON.stringify(v)\<close>: the string, or the text of \<open>undefined\<close>\<close>
  "stored_text rt v = (case JSON_stringify rt v of None \<Rightarrow> ''undefined'' | Some t \<Rightarrow> t)"

text \<open>
  Invocation \<open>i\<close> resumes when the promise it awaits settles: after the upload it calls
  \<open>runAnalysis\<close> and awaits again; after the analysis it stores the body, navigates
  and calls \<open>setLoading(false)\<close>; a rejection of either goes to the \<open>catch\<close> block.
\<close>

fun resume :: "runtime \<Rightarrow> nat \<Rightarrow> awaiting \<Rightarrow> outcome \<Rightarrow> app \<Rightarrow> app" where
  "resume rt i AwaitUpload (Resolved body) st =
     st\<lparr>requests := requests st @ [Analyze businessId],
        in_flight := (in_flight st)[i := AwaitAnalysis]\<rparr>"
| "resume rt i AwaitAnalysis (Resolved body) st =
     st\<lparr>storage := (storage st)(''analysis'' \<mapsto> stored_text rt body),
        location := ''/results'',
        loading := False,
        in_flight := drop_nth i (in_flight st)\<rparr>"
| "resume rt i w (Rejected err) st = failed i err st"

definition settle :: "runtime \<Rightarrow> nat \<Rightarrow> outcome \<Rightarrow> app \<Rightarrow> app" where
  "settle rt i out st =
     (if i < length (in_flight st) then resume rt i (in_flight st ! i) out st else st)"

text \<open>
  The button: \<open>disabled={loading}\<close>. A disabled button dispatches no click.
  \<open>click\<close> is a press on the button as rendered from the current state. A press that
  meets a button rendered enabled while the state has moved on (a second click
  dispatched before the re-render) runs \<open>handleUpload\<close> itself, which never reads
  \<open>loading\<close>.
\<close>

definition button_disabled :: "app \<Rightarrow> bool" where
  "button_disabled st = loading st"

definition button_label :: "app \<Rightarrow> string" where
  "button_label st = (if loading st then ''Processing...'' else ''Analyze Business'')"

definition click :: "app \<Rightarrow> app" where
  "click st = (if button_disabled st then st else handleUpload st)"

text \<open>
  \<open>ResultsPage\<close> on mount: the first render with \<open>analysis = null\<close>, then the effect,
  then a second render when the effect called \<open>setAnalysis\<close>. \<open>getItem\<close> is \<open>null\<close> for
  a key that was never set.
\<close>

definition getItem :: "app \<Rightarrow> string \<Rightarrow> jsval" where
  "getItem st k = (case storage st k of None \<Rightarrow> Null | Some t \<Rightarrow> Str t)"

definition ResultsPage_effect :: "runtime \<Rightarrow> app \<Rightarrow> error + (jsval option \<times> app)" where
  \<comment> \<open>\<open>Some v\<close>: \<open>setAnalysis(v)\<close> was called\<close>
  "ResultsPage_effect rt st =
     (let data = getItem st ''analysis''
      in if truthy data
         then case JSON_parse rt (to_string rt data) of
           Inl e \<Rightarrow> Inl e
         | Inr v \<Rightarrow> Inr (Some v, st)
         else Inr (None, st\<lparr>location := ''/''\<rparr>))"

definition ResultsPage_mount :: "runtime \<Rightarrow> app \<Rightarrow> error + (results_page list \<times> app)" where
  "ResultsPage_mount rt st =
     (case ResultsPage_effect rt st of
        Inl e \<Rightarrow> Inl e
      | Inr (None, st') \<Rightarrow> Inr ([ResultsPage_render rt Null], st')
      | Inr (Some v, st') \<Rightarrow> Inr ([ResultsPage_render rt Null, ResultsPage_render rt v], st'))"

section \<open>Sample values\<close>

text \<open>
  The theorems hold for every runtime. Their closed instances are evaluated with a
  runtime that knows the few conversions those instances need: the text of the number
  \<open>0\<close> and the JSON text of the empty object.
\<close>

definition test_runtime :: runtime where
  "test_runtime =
     \<lparr> number_to_string = (\<lambda>n. if n = Fin 0 then ''0'' else ''NaN''),
       string_to_number = (\<lambda>s. NaN),
       JSON_parse = (\<lambda>s. if s = ''{}'' then Inr (Obj []) else Inl SyntaxError),
       JSON_stringify = (\<lambda>v. if v = Obj [] then Some ''{}'' else None) \<rparr>"

definition liquidity_warning :: jsval where
  "liquidity_warning =
     Obj [(''type'', Str ''Liquidity''), (''severity'', Str ''Critical''),
          (''message'', Str ''Cash reserves below 1 month'')]"

definition sample_file :: jsval where
  "sample_file = Obj [(''name'', Str ''books.csv'')]"




definition stored_empty :: app where
  \<comment> \<open>the results route with the empty payload in \<open>localStorage\<close>\<close>
  "stored_empty = initial\<lparr>storage := [''analysis'' \<mapsto> ''{}''], location := ''/results''\<rparr>"

text \<open>What \<open>ResultsPage\<close> is expected to show for the empty payload \<open>{}\<close>.\<close>

definition zero_view :: "runtime \<Rightarrow> results_view" where
  "zero_view rt =
     \<lparr> score_grid =
         [ Card ''Risk Score'' (Num (Fin 0)) (Str []),
           Card ''Investor Readiness'' (Num (Fin 0)) (Str []),
           Card ''ESG Score'' (Num (Fin 0)) (Str []),
           Card ''Survival Score'' (Num (Fin 0)) Undefined ],
       finance_grid =
         [ Card ''Net Cash Flow'' (Num (Fin 0)) (Str []),
           Card ''Working Capital'' (Num (Fin 0)) (Str []),
           Card ''Compliance Score'' (Num (Fin 0)) Undefined,
           Card ''Industry Percentile'' (Str (number_to_string rt (Fin 0) @ ''%'')) Undefined ],
       recommended_product = Str ''N/A'',
       recommendation_reason = Str [],
       forecast_revenue = Num (Fin 0),
       forecast_expenses = Num (Fin 0),
       summary_text = Str [] \<rparr>"

section \<open>Classification of scores\<close>

text \<open>
  C2. The risk gauge is inclusive at its thresholds: a score of at least 750 gets the
  green colour, a score from 600 up to but excluding 750 the orange one, a score below
  600 the red one, for the bar and for the heading alike. The score 750 is coloured as
  10000 is, and 749.999 is coloured differently from 750.
\<close>

theorem risk_tiers_inclusive:
  "(750 \<le> v \<longrightarrow>
      bar_fill (RiskGauge rt (Num (Fin v)) c) = ''#28a745'' \<and>
      heading_color (RiskGauge rt (Num (Fin v)) c) = ''#28a745'') \<and>
   (600 \<le> v \<and> v < 750 \<longrightarrow>
      bar_fill (RiskGauge rt (Num (Fin v)) c) = ''#fd7e14'' \<and>
      heading_color (RiskGauge rt (Num (Fin v)) c) = ''#fd7e14'') \<and>
   (v < 600 \<longrightarrow>
      bar_fill (RiskGauge rt (Num (Fin v)) c) = ''#dc3545'' \<and>
      heading_color (RiskGauge rt (Num (Fin v)) c) = ''#dc3545'') \<and>
   bar_fill (RiskGauge rt (Num (Fin 750)) c) = bar_fill (RiskGauge rt (Num (Fin 10000)) c') \<and>
   heading_color (RiskGauge rt (Num (Fin 750)) c)
     = heading_color (RiskGauge rt (Num (Fin 10000)) c') \<and>
   bar_fill (RiskGauge rt (Num (Fin 749.999)) c) \<noteq> bar_fill (RiskGauge rt (Num (Fin 750)) c) \<and>
   heading_color (RiskGauge rt (Num (Fin 749.999)) c)
     \<noteq> heading_color (RiskGauge rt (Num (Fin 750)) c)"
  by (simp add: RiskGauge_def js_ge_def)

theorem risk_tiers_inclusive_witness:
  "(750::real) \<le> 750 \<and>
   bar_fill (RiskGauge test_runtime (Num (Fin 750)) (Str ''Low Risk'')) = ''#28a745'' \<and>
   (600::real) \<le> 600 \<and> (600::real) < 750 \<and>
   bar_fill (RiskGauge test_runtime (Num (Fin 600)) (Str ''Medium Risk'')) = ''#fd7e14'' \<and>
   (599.5::real) < 600 \<and>
   heading_color (RiskGauge test_runtime (Num (Fin 599.5)) (Str ''High Risk'')) = ''#dc3545''"
  using risk_tiers_inclusive [where v = 750 and rt = test_runtime and c = "Str ''Low Risk''"]
    risk_tiers_inclusive [where v = 600 and rt = test_runtime and c = "Str ''Medium Risk''"]
    risk_tiers_inclusive [where v = "599.5" and rt = test_runtime and c = "Str ''High Risk''"]
  by simp




text \<open>
  C4. \<open>getSeverityColor\<close>, in the fraud panel and in the warning panel, maps the strings
  \<open>Critical\<close>, \<open>High\<close> and \<open>Medium\<close> each to a colour of its own by exact match, and
  every other value (the string \<open>Low\<close>, an unrecognised string, a value that is not a
  string) to the same blue; it returns a colour for every input.
\<close>

theorem severity_colors:
  "FraudPanel_getSeverityColor (Str ''Critical'') = ''#ef4444'' \<and>
   FraudPanel_getSeverityColor (Str ''High'') = ''#dc2626'' \<and>
   FraudPanel_getSeverityColor (Str ''Medium'') = ''#f59e0b'' \<and>
   WarningPanel_getSeverityColor (Str ''Critical'') = ''#ef4444'' \<and>
   WarningPanel_getSeverityColor (Str ''High'') = ''#dc2626'' \<and>
   WarningPanel_getSeverityColor (Str ''Medium'') = ''#f59e0b'' \<and>
   distinct [''#ef4444'', ''#dc2626'', ''#f59e0b'', ''#3b82f6''] \<and>
   (v \<noteq> Str ''Critical'' \<and> v \<noteq> Str ''High'' \<and> v \<noteq> Str ''Medium'' \<longrightarrow>
      FraudPanel_getSeverityColor v = ''#3b82f6'' \<and>
      WarningPanel_getSeverityColor v = ''#3b82f6'') \<and>
   FraudPanel_getSeverityColor v \<in> {''#ef4444'', ''#dc2626'', ''#f59e0b'', ''#3b82f6''} \<and>
   WarningPanel_getSeverityColor v = FraudPanel_getSeverityColor v"
  by (simp add: FraudPanel_getSeverityColor_def WarningPanel_getSeverityColor_def)

theorem severity_colors_witness:
  "Str ''Low'' \<noteq> Str ''Critical'' \<and> Str ''Low'' \<noteq> Str ''High'' \<and>
   Str ''Low'' \<noteq> Str ''Medium'' \<and>
   FraudPanel_getSeverityColor (Str ''Low'') = ''#3b82f6'' \<and>
   WarningPanel_getSeverityColor (Str ''Low'') = ''#3b82f6'' \<and>
   WarningPanel_getSeverityColor (Str ''critical'') = ''#3b82f6'' \<and>
   FraudPanel_getSeverityColor Undefined = ''#3b82f6''"
  using severity_colors [where v = "Str ''Low''"] severity_colors [where v = "Str ''critical''"]
    severity_colors [where v = Undefined]
  by simp

section \<open>Panels hidden or cleared\<close>

text \<open>
  C10. When the \<open>esg\<close> value (the \<open>summary\<close> value) is \<open>undefined\<close> or \<open>null\<close>, the ESG
  card (the summary panel) returns \<open>null\<close> and renders nothing. The card branches on
  the missing value: an \<open>esg\<close> object that is present but empty is rendered, with an
  undefined score in the lowest colour, not hidden.
\<close>

theorem missing_panel_renders_nothing:
  "(nullish esg \<longrightarrow> ESGCard rt esg = None) \<and>
   (nullish summary \<longrightarrow> AISummary summary = Inr None) \<and>
   ESGCard rt (Obj []) =
     Some \<lparr> score_color = ''#ef4444'', score_text = Undefined, category_text = Undefined,
            breakdown_part = Inl Undefined \<rparr>"
  by (auto simp add: nullish_def ESGCard_def AISummary_def getColor_def js_ge_def)

theorem missing_panel_renders_nothing_witness:
  "nullish Undefined \<and> nullish Null \<and>
   ESGCard test_runtime Undefined = None \<and> ESGCard test_runtime Null = None \<and>
   AISummary Undefined = Inr None \<and> AISummary Null = Inr None"
  using missing_panel_renders_nothing
      [where rt = test_runtime and esg = Undefined and summary = Undefined]
    missing_panel_renders_nothing [where rt = test_runtime and esg = Null and summary = Null]
  by (simp add: nullish_def)

text \<open>Mapping a callback that may throw over a list: the facts the panels need.\<close>

lemma map_err_Inr: "map_err f xs = Inr ys \<Longrightarrow> map f xs = map Inr ys"
proof (induction xs arbitrary: ys)
  case Nil
  then show ?case by auto
next
  case (Cons x xs)
  from Cons.prems obtain y zs where y: "f x = Inr y" and zs: "map_err f xs = Inr zs"
    and ys: "ys = y # zs"
    by (auto split: sum.splits)
  from Cons.IH [OF zs] y ys show ?case by simp
qed

lemma map_err_total:
  "(\<And>x. x \<in> set xs \<Longrightarrow> \<exists>y. f x = Inr y) \<Longrightarrow> \<exists>ys. map_err f xs = Inr ys"
proof (induction xs)
  case Nil
  then show ?case by simp
next
  case (Cons x xs)
  then obtain y where "f x = Inr y" by auto
  moreover from Cons obtain ys where "map_err f xs = Inr ys" by auto
  ultimately show ?case by simp
qed

lemma map_err_entries:
  assumes "map_err f xs = Inr ys"
  shows "length ys = length xs \<and> (\<forall>i<length xs. f (xs ! i) = Inr (ys ! i))"
proof -
  from assms have m: "map f xs = map Inr ys" by (rule map_err_Inr)
  then have l: "length ys = length xs" by (metis length_map)
  have "\<forall>i<length xs. f (xs ! i) = Inr (ys ! i)"
  proof (intro allI impI)
    fix i assume i: "i < length xs"
    then have "f (xs ! i) = map f xs ! i" by simp
    also have "\<dots> = map Inr ys ! i" by (simp only: m)
    also have "\<dots> = Inr (ys ! i)" using i l by simp
    finally show "f (xs ! i) = Inr (ys ! i)" .
  qed
  with l show ?thesis by simp
qed

lemma map_err_throws:
  assumes "x \<in> set xs" and "f x = Inl e" and "\<And>y e'. f y = Inl e' \<Longrightarrow> e' = e"
  shows "map_err f xs = Inl e"
  using assms(1,2)
proof (induction xs)
  case Nil
  then show ?case by simp
next
  case (Cons a xs)
  show ?case
  proof (cases "f a")
    case (Inl e')
    with assms(3) show ?thesis by simp
  next
    case (Inr y)
    with Cons have "map_err f xs = Inl e" by auto
    with Inr show ?thesis by simp
  qed
qed

lemma WarningPanel_nonempty:
  assumes "xs \<noteq> []" and "\<forall>x\<in>set xs. \<not> nullish x"
  shows "\<exists>entries. WarningPanel (Arr xs) = Inr (Alerts ''Early Warning Alerts'' entries) \<and>
           length entries = length xs \<and>
           (\<forall>i<length xs. warning_alert (xs ! i) = Inr (entries ! i))"
proof -
  have "\<exists>ys. map_err warning_alert xs = Inr ys"
    using assms(2) by (intro map_err_total) (simp add: warning_alert_def)
  then obtain ys where ys: "map_err warning_alert xs = Inr ys" by blast
  have "WarningPanel (Arr xs) = Inr (Alerts ''Early Warning Alerts'' ys)"
    using assms(1) ys by (simp add: WarningPanel_def)
  with map_err_entries [OF ys] show ?thesis by blast
qed

lemma FraudPanel_nonempty:
  assumes "xs \<noteq> []" and "\<forall>x\<in>set xs. \<not> nullish x"
  shows "\<exists>entries. FraudPanel (Arr xs) = Inr (Alerts ''Fraud & Anomaly Alerts'' entries) \<and>
           length entries = length xs \<and>
           (\<forall>i<length xs. fraud_alert (xs ! i) = Inr (entries ! i))"
proof -
  have "\<exists>ys. map_err fraud_alert xs = Inr ys"
    using assms(2) by (intro map_err_total) (simp add: fraud_alert_def)
  then obtain ys where ys: "map_err fraud_alert xs = Inr ys" by blast
  have "FraudPanel (Arr xs) = Inr (Alerts ''Fraud & Anomaly Alerts'' ys)"
    using assms(1) ys by (simp add: FraudPanel_def)
  with map_err_entries [OF ys] show ?thesis by blast
qed

lemma WarningPanel_null_element:
  assumes "x \<in> set xs" and "nullish x"
  shows "WarningPanel (Arr xs) = Inl TypeError"
proof -
  from assms(1) have ne: "xs \<noteq> []" by auto
  have "map_err warning_alert xs = Inl TypeError"
  proof (rule map_err_throws [OF assms(1)])
    show "warning_alert x = Inl TypeError" using assms(2) by (simp add: warning_alert_def)
  next
    fix y e' assume "warning_alert y = Inl e'"
    then show "e' = TypeError" by (simp add: warning_alert_def split: if_splits)
  qed
  with ne show ?thesis by (simp add: WarningPanel_def)
qed

lemma FraudPanel_null_element:
  assumes "x \<in> set xs" and "nullish x"
  shows "FraudPanel (Arr xs) = Inl TypeError"
proof -
  from assms(1) have ne: "xs \<noteq> []" by auto
  have "map_err fraud_alert xs = Inl TypeError"
  proof (rule map_err_throws [OF assms(1)])
    show "fraud_alert x = Inl TypeError" using assms(2) by (simp add: fraud_alert_def)
  next
    fix y e' assume "fraud_alert y = Inl e'"
    then show "e' = TypeError" by (simp add: fraud_alert_def split: if_splits)
  qed
  with ne show ?thesis by (simp add: FraudPanel_def)
qed

text \<open>
  An absent collection (\<open>undefined\<close> or \<open>null\<close>) is presented as the empty one: the guard
  of both panels is \<open>!x || x.length === 0\<close>.
\<close>

lemma absent_collection_as_empty:
  "WarningPanel Undefined = WarningPanel (Arr []) \<and> WarningPanel Null = WarningPanel (Arr []) \<and>
   FraudPanel Undefined = FraudPanel (Arr []) \<and> FraudPanel Null = FraudPanel (Arr [])"
  by (simp add: WarningPanel_def FraudPanel_def)

text \<open>
  C5, as stated, fails in its second half: not every non-empty sequence gets one alert
  entry per element. The callback reads \<open>warn.severity\<close> (\<open>flag.severity\<close>) with no guard,
  so on a sequence with a \<open>null\<close> element, which a JSON body can carry, the panel throws
  and produces no entry at all, also for the elements that are well formed.
\<close>

theorem null_element_counterexample:
  "WarningPanel (Arr [Null]) = Inl TypeError \<and>
   FraudPanel (Arr [Null]) = Inl TypeError \<and>
   WarningPanel (Arr [liquidity_warning, Null]) = Inl TypeError"
  by (simp add: WarningPanel_def FraudPanel_def warning_alert_def fraud_alert_def nullish_def
      liquidity_warning_def)

text \<open>
  C5, amended. For the empty sequence each panel shows its explicit confirmation view,
  with the positive message, and not a panel without entries. For a non-empty sequence
  none of whose elements is \<open>undefined\<close> or \<open>null\<close>, each panel shows one alert entry per
  element instead, in the order of the sequence. On a sequence that has such an element
  the panel throws.
\<close>

theorem alert_panels:
  "WarningPanel (Arr []) =
     Inr (AllClear ''Early Warning System'' ''#22c55e''
            (check_mark @ '' No active financial warnings'')) \<and>
   FraudPanel (Arr []) =
     Inr (AllClear ''Fraud Detection'' ''#22c55e'' (check_mark @ '' No fraud risks detected'')) \<and>
   WarningPanel (Arr []) \<noteq> Inr (Alerts h []) \<and>
   FraudPanel (Arr []) \<noteq> Inr (Alerts h []) \<and>
   (xs \<noteq> [] \<and> (\<forall>x\<in>set xs. \<not> nullish x) \<longrightarrow>
      (\<exists>entries. WarningPanel (Arr xs) = Inr (Alerts ''Early Warning Alerts'' entries) \<and>
         length entries = length xs \<and>
         (\<forall>i<length xs. warning_alert (xs ! i) = Inr (entries ! i))) \<and>
      (\<exists>entries. FraudPanel (Arr xs) = Inr (Alerts ''Fraud & Anomaly Alerts'' entries) \<and>
         length entries = length xs \<and>
         (\<forall>i<length xs. fraud_alert (xs ! i) = Inr (entries ! i)))) \<and>
   ((\<exists>x\<in>set xs. nullish x) \<longrightarrow>
      WarningPanel (Arr xs) = Inl TypeError \<and> FraudPanel (Arr xs) = Inl TypeError)"
proof (intro conjI impI)
  show "WarningPanel (Arr []) =
     Inr (AllClear ''Early Warning System'' ''#22c55e''
            (check_mark @ '' No active financial warnings''))"
    by (simp add: WarningPanel_def)
next
  show "FraudPanel (Arr []) =
     Inr (AllClear ''Fraud Detection'' ''#22c55e'' (check_mark @ '' No fraud risks detected''))"
    by (simp add: FraudPanel_def)
next
  show "WarningPanel (Arr []) \<noteq> Inr (Alerts h [])"
    by (simp add: WarningPanel_def)
next
  show "FraudPanel (Arr []) \<noteq> Inr (Alerts h [])"
    by (simp add: FraudPanel_def)
next
  assume "xs \<noteq> [] \<and> (\<forall>x\<in>set xs. \<not> nullish x)"
  then show "\<exists>entries. WarningPanel (Arr xs) = Inr (Alerts ''Early Warning Alerts'' entries) \<and>
         length entries = length xs \<and>
         (\<forall>i<length xs. warning_alert (xs ! i) = Inr (entries ! i))"
    using WarningPanel_nonempty by blast
next
  assume "xs \<noteq> [] \<and> (\<forall>x\<in>set xs. \<not> nullish x)"
  then show "\<exists>entries. FraudPanel (Arr xs) = Inr (Alerts ''Fraud & Anomaly Alerts'' entries) \<and>
         length entries = length xs \<and>
         (\<forall>i<length xs. fraud_alert (xs ! i) = Inr (entries ! i))"
    using FraudPanel_nonempty by blast
next
  assume "\<exists>x\<in>set xs. nullish x"
  then show "WarningPanel (Arr xs) = Inl TypeError"
    using WarningPanel_null_element by blast
next
  assume "\<exists>x\<in>set xs. nullish x"
  then show "FraudPanel (Arr xs) = Inl TypeError"
    using FraudPanel_null_element by blast
qed

theorem alert_panels_witness:
  "WarningPanel (Arr []) =
     Inr (AllClear ''Early Warning System'' ''#22c55e''
            (check_mark @ '' No active financial warnings'')) \<and>
   [liquidity_warning] \<noteq> [] \<and> \<not> nullish liquidity_warning \<and>
   WarningPanel (Arr [liquidity_warning]) =
     Inr (Alerts ''Early Warning Alerts''
            [\<lparr> border_left = ''6px solid #ef4444'', alert_title = Str ''Liquidity'',
                badge_background = ''#ef4444'', badge_text = Str ''Critical'',
                alert_body = Str ''Cash reserves below 1 month'' \<rparr>]) \<and>
   nullish Null \<and> FraudPanel (Arr [liquidity_warning, Null]) = Inl TypeError"
  using alert_panels [where xs = "[liquidity_warning]"]
    alert_panels [where xs = "[liquidity_warning, Null]"]
  by (simp add: WarningPanel_def liquidity_warning_def warning_alert_def nullish_def
      WarningPanel_getSeverityColor_def js_or_def)

section \<open>Defaults for absent fields\<close>




section \<open>The workflow\<close>

text \<open>
  C6, as stated, fails in the message: the text surfaced for a submit without a file is
  \<open>Please select a file.\<close>, passed to \<open>alert\<close>; nothing is thrown.
\<close>

theorem no_file_message_counterexample:
  "alerts (handleUpload initial) = [Str ''Please select a file.''] \<and>
   alerts (handleUpload initial) \<noteq> [Str ''no file selected'']"
  by (simp add: handleUpload_def initial_def)

text \<open>
  C6, amended. A submit with no file selected returns at once after surfacing the
  message \<open>Please select a file.\<close> through \<open>alert\<close>: the loading flag and the pending
  operations are as before (from the idle state the page stays idle), no request is
  issued, and neither the store nor the route changes.
\<close>

theorem submit_without_file:
  "\<not> truthy (file' st) \<longrightarrow>
     handleUpload st = st\<lparr>alerts := alerts st @ [Str ''Please select a file.'']\<rparr> \<and>
     loading (handleUpload st) = loading st \<and>
     requests (handleUpload st) = requests st \<and>
     in_flight (handleUpload st) = in_flight st \<and>
     storage (handleUpload st) = storage st \<and>
     location (handleUpload st) = location st \<and>
     (\<not> loading st \<longrightarrow> click st = handleUpload st)"
  by (simp add: handleUpload_def click_def button_disabled_def)

theorem submit_without_file_witness:
  "\<not> truthy (file' initial) \<and>
   handleUpload initial = initial\<lparr>alerts := [Str ''Please select a file.'']\<rparr> \<and>
   \<not> loading (handleUpload initial) \<and> requests (handleUpload initial) = [] \<and>
   in_flight (handleUpload initial) = [] \<and> click initial = handleUpload initial"
  using submit_without_file [where st = initial]
  by (simp add: initial_def)






text \<open>
  C8, as stated, fails: no error is raised for a submit while an operation is in
  flight. Pressing the (disabled) button does nothing and surfaces nothing, and
  \<open>handleUpload\<close> itself has no guard: called in that state it issues a second upload
  and suspends a second invocation.
\<close>

theorem in_flight_submit_counterexample:
  "in_flight (click (setFile sample_file initial)) = [AwaitUpload] \<and>
   click (click (setFile sample_file initial)) = click (setFile sample_file initial) \<and>
   alerts (click (click (setFile sample_file initial))) = [] \<and>
   alerts (handleUpload (click (setFile sample_file initial))) = [] \<and>
   requests (handleUpload (click (setFile sample_file initial)))
     = [Upload 1 sample_file, Upload 1 sample_file] \<and>
   in_flight (handleUpload (click (setFile sample_file initial))) = [AwaitUpload, AwaitUpload]"
  by (simp add: click_def button_disabled_def handleUpload_def setFile_def initial_def
      sample_file_def businessId_def)

text \<open>
  C8, amended. No submit is rejected with an error, and none is queued. The button is
  disabled exactly while the loading flag is set, which \<open>handleUpload\<close> does when it
  starts an operation and which stays so while that operation goes on from the upload
  to the analysis; a press on the button rendered from such a state changes nothing:
  nothing is surfaced and what is in flight is unaffected. \<open>handleUpload\<close> itself has no
  guard: whenever it runs with a file selected, whatever is in flight and whatever the
  flag, it starts another upload beside the operations in flight, which stay as they
  are, and surfaces nothing. The only message a submit ever surfaces is the one for a
  missing file.
\<close>

theorem in_flight_submit:
  "(button_disabled st \<longleftrightarrow> loading st) \<and>
   (loading st \<longrightarrow> button_label st = ''Processing...'' \<and> click st = st) \<and>
   (truthy (file' st) \<longrightarrow>
      handleUpload st =
        st\<lparr>loading := True,
           requests := requests st @ [Upload businessId (file' st)],
           in_flight := in_flight st @ [AwaitUpload]\<rparr> \<and>
      alerts (handleUpload st) = alerts st \<and>
      take (length (in_flight st)) (in_flight (handleUpload st)) = in_flight st \<and>
      button_disabled (handleUpload st) \<and>
      click (handleUpload st) = handleUpload st) \<and>
   (i < length (in_flight st) \<and> in_flight st ! i = AwaitUpload \<longrightarrow>
      loading (settle rt i (Resolved body) st) = loading st \<and>
      alerts (settle rt i (Resolved body) st) = alerts st \<and>
      in_flight (settle rt i (Resolved body) st) = (in_flight st)[i := AwaitAnalysis]) \<and>
   (alerts (handleUpload st) = alerts st \<or>
    alerts (handleUpload st) = alerts st @ [Str ''Please select a file.''])"
  by (simp add: button_disabled_def button_label_def click_def handleUpload_def settle_def)

theorem in_flight_submit_witness:
  "loading (click (setFile sample_file initial)) \<and>
   click (click (setFile sample_file initial)) = click (setFile sample_file initial) \<and>
   truthy (file' (setFile sample_file initial)) \<and>
   handleUpload (setFile sample_file initial)
     = \<lparr> file' = sample_file, loading = True, storage = Map.empty, location = ''/'',
         alerts = [], requests = [Upload 1 sample_file], in_flight = [AwaitUpload] \<rparr> \<and>
   (0::nat) < length (in_flight (click (setFile sample_file initial))) \<and>
   in_flight (click (setFile sample_file initial)) ! 0 = AwaitUpload \<and>
   settle test_runtime 0 (Resolved (Obj [])) (click (setFile sample_file initial))
     = \<lparr> file' = sample_file, loading = True, storage = Map.empty, location = ''/'',
         alerts = [], requests = [Upload 1 sample_file, Analyze 1],
         in_flight = [AwaitAnalysis] \<rparr> \<and>
   button_disabled
     (settle test_runtime 0 (Resolved (Obj [])) (click (setFile sample_file initial))) \<and>
   truthy (file' (click (setFile sample_file initial))) \<and>
   in_flight (handleUpload (click (setFile sample_file initial))) = [AwaitUpload, AwaitUpload] \<and>
   in_flight (settle test_runtime 0 (Rejected Null)
                (handleUpload (click (setFile sample_file initial)))) = [AwaitUpload] \<and>
   button_disabled (settle test_runtime 0 (Rejected Null)
                      (handleUpload (click (setFile sample_file initial)))) = False"
  using in_flight_submit [where st = "click (setFile sample_file initial)" and i = 0
      and rt = test_runtime and body = "Obj []"]
    in_flight_submit [where st = "setFile sample_file initial"]
  by (simp add: settle_def failed_def click_def button_disabled_def handleUpload_def
      setFile_def initial_def sample_file_def businessId_def drop_nth_def)

text \<open>
  C9. When the store holds no analysis (\<open>getItem\<close> is \<open>null\<close>), mounting the results page
  navigates to the upload route and renders only the loading placeholder. The overview
  is rendered only for a snapshot that was stored: a non-empty stored text that parses to
  a truthy value, and it is rendered from that value, never from defaults alone.
\<close>

theorem results_without_snapshot:
  "(storage st ''analysis'' = None \<longrightarrow>
      ResultsPage_mount rt st = Inr ([Loading], st\<lparr>location := ''/''\<rparr>)) \<and>
   (ResultsPage_mount rt st = Inr (views, st') \<and> Overview v \<in> set views \<longrightarrow>
      (\<exists>t a. storage st ''analysis'' = Some t \<and> t \<noteq> [] \<and> JSON_parse rt t = Inr a \<and>
         truthy a \<and> ResultsPage_render rt a = Overview v))"
proof (intro conjI impI)
  assume "storage st ''analysis'' = None"
  then show "ResultsPage_mount rt st = Inr ([Loading], st\<lparr>location := ''/''\<rparr>)"
    by (simp add: ResultsPage_mount_def ResultsPage_effect_def getItem_def ResultsPage_render_def)
next
  assume a: "ResultsPage_mount rt st = Inr (views, st') \<and> Overview v \<in> set views"
  show "\<exists>t a. storage st ''analysis'' = Some t \<and> t \<noteq> [] \<and> JSON_parse rt t = Inr a \<and>
         truthy a \<and> ResultsPage_render rt a = Overview v"
  proof (cases "storage st ''analysis''")
    case None
    with a show ?thesis
      by (auto simp add: ResultsPage_mount_def ResultsPage_effect_def getItem_def
          ResultsPage_render_def)
  next
    case (Some t)
    show ?thesis
    proof (cases "t = []")
      case True
      with a Some show ?thesis
        by (auto simp add: ResultsPage_mount_def ResultsPage_effect_def getItem_def
            ResultsPage_render_def)
    next
      case False
      with a Some obtain p where p: "JSON_parse rt t = Inr p"
        and views: "views = [ResultsPage_render rt Null, ResultsPage_render rt p]"
        by (auto simp add: ResultsPage_mount_def ResultsPage_effect_def getItem_def
            split: sum.splits)
      have "ResultsPage_render rt Null = Loading" by (simp add: ResultsPage_render_def)
      with a views have r: "ResultsPage_render rt p = Overview v" by auto
      then have "truthy p" by (auto simp add: ResultsPage_render_def split: if_splits)
      with Some False p r show ?thesis by blast
    qed
  qed
qed

theorem results_without_snapshot_witness:
  "storage initial ''analysis'' = None \<and>
   ResultsPage_mount test_runtime initial = Inr ([Loading], initial\<lparr>location := ''/''\<rparr>) \<and>
   ResultsPage_mount test_runtime stored_empty
     = Inr ([Loading, Overview (zero_view test_runtime)], stored_empty) \<and>
   Overview (zero_view test_runtime) \<in> set [Loading, Overview (zero_view test_runtime)] \<and>
   (\<exists>t a. storage stored_empty ''analysis'' = Some t \<and> t \<noteq> [] \<and>
      JSON_parse test_runtime t = Inr a \<and> truthy a \<and>
      ResultsPage_render test_runtime a = Overview (zero_view test_runtime))"
proof -
  have 1: "storage initial ''analysis'' = None" by (simp add: initial_def)
  have 2: "ResultsPage_mount test_runtime stored_empty
     = Inr ([Loading, Overview (zero_view test_runtime)], stored_empty)"
    by (simp add: ResultsPage_mount_def ResultsPage_effect_def getItem_def stored_empty_def
        test_runtime_def ResultsPage_render_def zero_view_def path2_def opt_dot_def nullish_def
        nullish_coalesce_def initial_def)
  have 3: "Overview (zero_view test_runtime) \<in> set [Loading, Overview (zero_view test_runtime)]"
    by simp
  from results_without_snapshot [where rt = test_runtime and st = initial] 1
  have 4: "ResultsPage_mount test_runtime initial = Inr ([Loading], initial\<lparr>location := ''/''\<rparr>)"
    by blast
  from results_without_snapshot [where rt = test_runtime and st = stored_empty
      and views = "[Loading, Overview (zero_view test_runtime)]" and st' = stored_empty
      and v = "zero_view test_runtime"] 2 3
  have 5: "\<exists>t a. storage stored_empty ''analysis'' = Some t \<and> t \<noteq> [] \<and>
      JSON_parse test_runtime t = Inr a \<and> truthy a \<and>
      ResultsPage_render test_runtime a = Overview (zero_view test_runtime)"
    by blast
  from 1 2 3 4 5 show ?thesis by blast
qed

end
